theory Spec2Isabelle
  imports
    Complex_Main
    "HOL-Library.AList"
    "HOL-Library.Monad_Syntax"
    "HOL-Library.Multiset"
    "HOL-Library.Product_Lexorder"
    "HOL-Library.List_Lexorder"
begin

section \<open>FlowCam processing (\<open>algae_lib/flowcam_utils.py\<close>): the data\<close>

text \<open>
  A table cell holds what a pandas column can hold: text, a float64 number, a timestamp
  (nanoseconds since 1970-01-01) or the missing value (\<open>NaN\<close>, \<open>NaT\<close> and \<open>None\<close> are
  one value, \<open>Null\<close>, as \<open>isna\<close> sees them). A number is finite or one of the two IEEE
  infinities; every finite float64 is a rational, so comparisons are exact. Arithmetic on
  finite values is carried out on the rationals (float64 rounding and the sign of zero
  are not represented); the infinities and \<open>NaN\<close> follow IEEE 754.
\<close>

datatype num = Fin rat | PInf | NInf

datatype cell = Str string | Num num | Date int | Null

fun num_less :: "num \<Rightarrow> num \<Rightarrow> bool" where
  "num_less (Fin a) (Fin b) = (a < b)"
| "num_less NInf PInf = True"
| "num_less NInf (Fin b) = True"
| "num_less (Fin a) PInf = True"
| "num_less _ _ = False"

definition num_le :: "num \<Rightarrow> num \<Rightarrow> bool" where
  "num_le x y = (x = y \<or> num_less x y)"

text \<open>\<open>column >= q\<close> and \<open>column <= q\<close> of a numeric column: false on a missing value.\<close>

definition cell_ge :: "cell \<Rightarrow> rat \<Rightarrow> bool" where
  "cell_ge c q = (case c of Num x \<Rightarrow> num_le (Fin q) x | _ \<Rightarrow> False)"

definition cell_le :: "cell \<Rightarrow> rat \<Rightarrow> bool" where
  "cell_le c q = (case c of Num x \<Rightarrow> num_le x (Fin q) | _ \<Rightarrow> False)"

definition cell_lt :: "cell \<Rightarrow> rat \<Rightarrow> bool" where
  "cell_lt c q = (case c of Num x \<Rightarrow> num_less x (Fin q) | _ \<Rightarrow> False)"

definition cell_gt :: "cell \<Rightarrow> rat \<Rightarrow> bool" where
  "cell_gt c q = (case c of Num x \<Rightarrow> num_less (Fin q) x | _ \<Rightarrow> False)"

text \<open>IEEE subtraction, division and multiplication; \<open>Null\<close> is the \<open>NaN\<close> result.\<close>

fun num_sub :: "num \<Rightarrow> num \<Rightarrow> cell" where
  "num_sub (Fin a) (Fin b) = Num (Fin (a - b))"
| "num_sub (Fin a) PInf = Num NInf"
| "num_sub (Fin a) NInf = Num PInf"
| "num_sub PInf PInf = Null"
| "num_sub PInf _ = Num PInf"
| "num_sub NInf NInf = Null"
| "num_sub NInf _ = Num NInf"

fun num_div :: "num \<Rightarrow> num \<Rightarrow> cell" where
  "num_div (Fin a) (Fin b) =
     (if b = 0 then (if a = 0 then Null else if 0 < a then Num PInf else Num NInf)
      else Num (Fin (a / b)))"
| "num_div (Fin a) _ = Num (Fin 0)"
| "num_div PInf (Fin b) = (if 0 \<le> b then Num PInf else Num NInf)"
| "num_div NInf (Fin b) = (if 0 \<le> b then Num NInf else Num PInf)"
| "num_div _ _ = Null"

fun num_mul :: "num \<Rightarrow> num \<Rightarrow> cell" where
  "num_mul (Fin a) (Fin b) = Num (Fin (a * b))"
| "num_mul (Fin a) PInf = (if a = 0 then Null else if 0 < a then Num PInf else Num NInf)"
| "num_mul (Fin a) NInf = (if a = 0 then Null else if 0 < a then Num NInf else Num PInf)"
| "num_mul PInf (Fin b) = (if b = 0 then Null else if 0 < b then Num PInf else Num NInf)"
| "num_mul NInf (Fin b) = (if b = 0 then Null else if 0 < b then Num NInf else Num PInf)"
| "num_mul PInf PInf = Num PInf"
| "num_mul NInf NInf = Num PInf"
| "num_mul PInf NInf = Num NInf"
| "num_mul NInf PInf = Num NInf"

text \<open>Element-wise arithmetic of two numeric columns: a missing operand gives a missing result.\<close>

definition cell_sub :: "cell \<Rightarrow> cell \<Rightarrow> cell" where
  "cell_sub a b = (case (a, b) of (Num x, Num y) \<Rightarrow> num_sub x y | _ \<Rightarrow> Null)"

definition cell_div :: "cell \<Rightarrow> cell \<Rightarrow> cell" where
  "cell_div a b = (case (a, b) of (Num x, Num y) \<Rightarrow> num_div x y | _ \<Rightarrow> Null)"

definition cell_mul :: "cell \<Rightarrow> cell \<Rightarrow> cell" where
  "cell_mul a b = (case (a, b) of (Num x, Num y) \<Rightarrow> num_mul x y | _ \<Rightarrow> Null)"

subsection \<open>Data frames\<close>

text \<open>
  A \<open>DataFrame\<close> is its column labels and its rows in order; a row carries its index label
  and its cells by column label. Reading a cell of a label the row does not have gives
  the missing value.
\<close>

record row =
  idx :: nat
  cells :: "(string \<times> cell) list"

record dataframe =
  columns :: "string list"
  rows :: "row list"

definition col :: "row \<Rightarrow> string \<Rightarrow> cell" where
  "col r c = (case map_of (cells r) c of Some v \<Rightarrow> v | None \<Rightarrow> Null)"

definition set_cell :: "string \<Rightarrow> row \<Rightarrow> cell \<Rightarrow> row" where
  "set_cell c r v = r\<lparr>cells := AList.update c v (cells r)\<rparr>"

text \<open>\<open>df[c]\<close>: the column's values in row order; a \<open>KeyError\<close> (\<open>None\<close>) for an unknown label.\<close>

definition column :: "dataframe \<Rightarrow> string \<Rightarrow> cell list option" where
  "column df c = (if c \<in> set (columns df) then Some (map (\<lambda>r. col r c) (rows df)) else None)"

text \<open>\<open>df[c] = vs\<close>: the column is replaced in place, or appended when the label is new.\<close>

definition set_column :: "string \<Rightarrow> cell list \<Rightarrow> dataframe \<Rightarrow> dataframe" where
  "set_column c vs df =
     df\<lparr>columns := (if c \<in> set (columns df) then columns df else columns df @ [c]),
        rows := map2 (set_cell c) (rows df) vs\<rparr>"

subsection \<open>Coercion\<close>

text \<open>
  \<open>pd.to_datetime(\<dots>, errors='coerce')\<close> and \<open>pd.to_numeric(\<dots>, errors='coerce')\<close>, cell by
  cell. A value that already has the target type is kept and a missing value stays
  missing. What the library's parsers make of any other value is a parameter \<open>pd\<close>, \<open>pn\<close>
  of the model (\<open>None\<close> when the value does not parse, which the coercion turns into the
  missing value instead of raising).
\<close>

definition to_datetime :: "(cell \<Rightarrow> int option) \<Rightarrow> cell \<Rightarrow> cell" where
  "to_datetime pd c =
     (case c of
        Date t \<Rightarrow> Date t
      | Null \<Rightarrow> Null
      | _ \<Rightarrow> (case pd c of Some t \<Rightarrow> Date t | None \<Rightarrow> Null))"

definition to_numeric :: "(cell \<Rightarrow> num option) \<Rightarrow> cell \<Rightarrow> cell" where
  "to_numeric pn c =
     (case c of
        Num x \<Rightarrow> Num x
      | Null \<Rightarrow> Null
      | _ \<Rightarrow> (case pn c of Some x \<Rightarrow> Num x | None \<Rightarrow> Null))"

subsection \<open>The processor's configuration (\<open>FlowCamProcessor.__init__\<close>)\<close>

definition required_columns :: "string list" where
  "required_columns = [''date'', ''tpu'', ''reactor'', ''algae_density'']"

definition valid_tpu_range :: "rat \<times> rat" where
  "valid_tpu_range = (1, 10)"

definition valid_reactor_range :: "rat \<times> rat" where
  "valid_reactor_range = (1, 20)"

definition valid_density_range :: "rat \<times> rat" where
  "valid_density_range = (0, 3)"

section \<open>Cleaning (\<open>clean_flowcam_data\<close>)\<close>

text \<open>\<open>dropna(subset=\<dots>)\<close>: a row stays when none of the listed cells is missing.\<close>

definition dropna :: "string list \<Rightarrow> dataframe \<Rightarrow> dataframe" where
  "dropna cs df = df\<lparr>rows := filter (\<lambda>r. list_all (\<lambda>c. col r c \<noteq> Null) cs) (rows df)\<rparr>"

text \<open>The boolean mask of the range filter, for one row.\<close>

definition in_range :: "row \<Rightarrow> bool" where
  "in_range r =
     (cell_ge (col r ''tpu'') (fst valid_tpu_range) \<and>
      cell_le (col r ''tpu'') (snd valid_tpu_range) \<and>
      cell_ge (col r ''reactor'') (fst valid_reactor_range) \<and>
      cell_le (col r ''reactor'') (snd valid_reactor_range) \<and>
      cell_ge (col r ''algae_density'') (fst valid_density_range) \<and>
      cell_le (col r ''algae_density'') (snd valid_density_range))"

text \<open>
  \<open>sort_values\<close> on several labels is a stable lexicographic sort, ascending, with missing
  values last. The key of a cell orders \<open>-inf\<close>, the finite values and timestamps, \<open>+inf\<close>,
  and then the missing value.
\<close>

fun cell_key :: "cell \<Rightarrow> nat \<times> rat" where
  "cell_key (Num NInf) = (0, 0)"
| "cell_key (Num (Fin q)) = (1, q)"
| "cell_key (Date t) = (1, of_int t)"
| "cell_key (Num PInf) = (2, 0)"
| "cell_key (Str s) = (3, 0)"
| "cell_key Null = (3, 0)"

definition row_key :: "string list \<Rightarrow> row \<Rightarrow> (nat \<times> rat) list" where
  "row_key ks r = map (\<lambda>c. cell_key (col r c)) ks"

definition sort_values :: "string list \<Rightarrow> dataframe \<Rightarrow> dataframe option" where
  "sort_values ks df =
     (if set ks \<subseteq> set (columns df) then Some (df\<lparr>rows := sort_key (row_key ks) (rows df)\<rparr>)
      else None)"

text \<open>\<open>reset_index(drop=True)\<close>: the index labels become 0, 1, 2, \<dots> in row order.\<close>

definition reindex :: "row list \<Rightarrow> row list" where
  "reindex rs = map (\<lambda>(i, r). r\<lparr>idx := i\<rparr>) (enumerate 0 rs)"

definition reset_index :: "dataframe \<Rightarrow> dataframe" where
  "reset_index df = df\<lparr>rows := reindex (rows df)\<rparr>"

text \<open>
  The body of the \<open>try\<close> block, on the copy of the input: \<open>None\<close> when a statement raises,
  which here is the \<open>KeyError\<close> of a required column that the table does not have.
\<close>

definition clean_body ::
  "(cell \<Rightarrow> int option) \<Rightarrow> (cell \<Rightarrow> num option) \<Rightarrow> dataframe \<Rightarrow> dataframe option" where
  "clean_body pd pn df =
     do {
       d \<leftarrow> column df ''date'';
       let cleaned_df = set_column ''date'' (map (to_datetime pd) d) df;
       t \<leftarrow> column cleaned_df ''tpu'';
       let cleaned_df = set_column ''tpu'' (map (to_numeric pn) t) cleaned_df;
       r \<leftarrow> column cleaned_df ''reactor'';
       let cleaned_df = set_column ''reactor'' (map (to_numeric pn) r) cleaned_df;
       a \<leftarrow> column cleaned_df ''algae_density'';
       let cleaned_df = set_column ''algae_density'' (map (to_numeric pn) a) cleaned_df;
       let cleaned_df = dropna [''date'', ''tpu'', ''reactor'', ''algae_density''] cleaned_df;
       let cleaned_df = cleaned_df\<lparr>rows := filter in_range (rows cleaned_df)\<rparr>;
       cleaned_df \<leftarrow> sort_values [''date'', ''tpu'', ''reactor''] cleaned_df;
       Some (reset_index cleaned_df)
     }"

text \<open>\<open>except Exception: return df\<close>: on a fault the caller gets the table it passed in.\<close>

definition clean_flowcam_data ::
  "(cell \<Rightarrow> int option) \<Rightarrow> (cell \<Rightarrow> num option) \<Rightarrow> dataframe \<Rightarrow> dataframe" where
  "clean_flowcam_data pd pn df = (case clean_body pd pn df of Some cleaned \<Rightarrow> cleaned | None \<Rightarrow> df)"

section \<open>Validation (\<open>validate_flowcam_data\<close>)\<close>

text \<open>
  The entries of the report's \<open>errors\<close> and \<open>warnings\<close> lists, one constructor for each
  message the function formats; the argument is the value the f-string prints (the missing
  labels, listed here in the order of \<open>required_columns\<close>, or the count):
  \<open>Missing required columns: {\<dots>}\<close>, \<open>Data validation error: \<dots>\<close>,
  \<open>n invalid dates found\<close>, \<open>n invalid TPU values found\<close>, \<open>n TPU values out of range\<close>,
  \<open>n invalid reactor values found\<close>, \<open>n reactor values out of range\<close>,
  \<open>n invalid density values found\<close>, \<open>n density values out of range\<close>.
\<close>

datatype message =
    Missing_required_columns "string list"
  | Data_validation_error
  | Invalid_dates nat
  | Invalid_TPU nat
  | TPU_out_of_range nat
  | Invalid_reactor nat
  | Reactor_out_of_range nat
  | Invalid_density nat
  | Density_out_of_range nat

record validation_results =
  is_valid :: bool
  errors :: "message list"
  warnings :: "message list"
  row_count :: nat
  column_count :: nat

text \<open>\<open>if n > 0: validation_results['warnings'].append(\<dots>)\<close>\<close>

definition warn_if :: "nat \<Rightarrow> (nat \<Rightarrow> message) \<Rightarrow> validation_results \<Rightarrow> validation_results" where
  "warn_if n msg res = (if 0 < n then res\<lparr>warnings := warnings res @ [msg n]\<rparr> else res)"

text \<open>\<open>column.isna().sum()\<close> and \<open>((column < lo) | (column > hi)).sum()\<close>\<close>

definition isna_sum :: "cell list \<Rightarrow> nat" where
  "isna_sum vs = length (filter (\<lambda>c. c = Null) vs)"

definition out_of_range_sum :: "rat \<times> rat \<Rightarrow> cell list \<Rightarrow> nat" where
  "out_of_range_sum bounds vs =
     length (filter (\<lambda>c. cell_lt c (fst bounds) \<or> cell_gt c (snd bounds)) vs)"

text \<open>
  The \<open>try\<close> block. It assigns the coerced columns to \<open>df\<close> itself, the caller's table, so
  the table is part of what the block returns.
\<close>

definition validate_body ::
  "(cell \<Rightarrow> int option) \<Rightarrow> (cell \<Rightarrow> num option) \<Rightarrow> validation_results \<Rightarrow> dataframe
     \<Rightarrow> (validation_results \<times> dataframe) option" where
  "validate_body pd pn validation_results df =
     do {
       d \<leftarrow> column df ''date'';
       let df = set_column ''date'' (map (to_datetime pd) d) df;
       d \<leftarrow> column df ''date'';
       let validation_results = warn_if (isna_sum d) Invalid_dates validation_results;
       t \<leftarrow> column df ''tpu'';
       let df = set_column ''tpu'' (map (to_numeric pn) t) df;
       t \<leftarrow> column df ''tpu'';
       let validation_results = warn_if (isna_sum t) Invalid_TPU validation_results;
       let validation_results =
         warn_if (out_of_range_sum valid_tpu_range t) TPU_out_of_range validation_results;
       r \<leftarrow> column df ''reactor'';
       let df = set_column ''reactor'' (map (to_numeric pn) r) df;
       r \<leftarrow> column df ''reactor'';
       let validation_results = warn_if (isna_sum r) Invalid_reactor validation_results;
       let validation_results =
         warn_if (out_of_range_sum valid_reactor_range r) Reactor_out_of_range validation_results;
       a \<leftarrow> column df ''algae_density'';
       let df = set_column ''algae_density'' (map (to_numeric pn) a) df;
       a \<leftarrow> column df ''algae_density'';
       let validation_results = warn_if (isna_sum a) Invalid_density validation_results;
       let validation_results =
         warn_if (out_of_range_sum valid_density_range a) Density_out_of_range validation_results;
       Some (validation_results, df)
     }"

text \<open>
  The function returns the report; the second component is the caller's table after the
  call. The \<open>except\<close> branch is the \<open>None\<close> case of the body; the body runs only when all
  four required labels are present, so none of its column reads raises.
\<close>

definition validate_flowcam_data ::
  "(cell \<Rightarrow> int option) \<Rightarrow> (cell \<Rightarrow> num option) \<Rightarrow> dataframe
     \<Rightarrow> validation_results \<times> dataframe" where
  "validate_flowcam_data pd pn df =
     (let validation_results =
            \<lparr>is_valid = True, errors = [], warnings = [],
             row_count = length (rows df), column_count = length (columns df)\<rparr>;
          missing_columns = filter (\<lambda>c. c \<notin> set (columns df)) required_columns;
          validation_results =
            (if missing_columns \<noteq> []
             then validation_results
                    \<lparr>is_valid := False,
                     errors := errors validation_results @ [Missing_required_columns missing_columns]\<rparr>
             else validation_results)
      in if \<not> is_valid validation_results then (validation_results, df)
         else (case validate_body pd pn validation_results df of
                 Some (res, df') \<Rightarrow> (res, df')
               | None \<Rightarrow>
                   (validation_results
                      \<lparr>is_valid := False,
                       errors := errors validation_results @ [Data_validation_error]\<rparr>, df)))"

section \<open>Derived columns (\<open>add_derived_columns\<close>)\<close>

subsection \<open>The \<open>.dt\<close> accessor\<close>

text \<open>
  The calendar fields of a timestamp, in the proleptic Gregorian calendar: the day number
  since 1970-01-01 and its conversion to a civil date and back.
\<close>

definition ns_per_day :: int where
  "ns_per_day = 86400000000000"

definition days_from_civil :: "int \<Rightarrow> int \<Rightarrow> int \<Rightarrow> int" where
  "days_from_civil y m d =
     (let y' = (if m \<le> 2 then y - 1 else y);
          era = y' div 400;
          yoe = y' mod 400;
          doy = (153 * (if 2 < m then m - 3 else m + 9) + 2) div 5 + d - 1;
          doe = yoe * 365 + yoe div 4 - yoe div 100 + doy
      in era * 146097 + doe - 719468)"

definition civil_from_days :: "int \<Rightarrow> int \<times> int \<times> int" where
  "civil_from_days z0 =
     (let z = z0 + 719468;
          era = z div 146097;
          doe = z mod 146097;
          yoe = (doe - doe div 1460 + doe div 36524 - doe div 146096) div 365;
          y = yoe + era * 400;
          doy = doe - (365 * yoe + yoe div 4 - yoe div 100);
          mp = (5 * doy + 2) div 153;
          d = doy - (153 * mp + 2) div 5 + 1;
          m = (if mp < 10 then mp + 3 else mp - 9)
      in (if m \<le> 2 then y + 1 else y, m, d))"

definition dayofweek :: "int \<Rightarrow> int" where
  \<comment> \<open>Monday is 0; 1970-01-01 was a Thursday\<close>
  "dayofweek days = (days + 3) mod 7"

definition isoweek :: "int \<Rightarrow> int" where
  \<comment> \<open>the ISO-8601 week is numbered within the year of its Thursday\<close>
  "isoweek days =
     (let thursday = days - dayofweek days + 3;
          iso_year = fst (civil_from_days thursday)
      in (thursday - days_from_civil iso_year 1 1) div 7 + 1)"

definition dt_field :: "(int \<Rightarrow> int) \<Rightarrow> cell \<Rightarrow> cell" where
  "dt_field f c = (case c of Date t \<Rightarrow> Num (Fin (of_int (f (t div ns_per_day)))) | _ \<Rightarrow> Null)"

definition dt_year :: "cell \<Rightarrow> cell" where
  "dt_year = dt_field (\<lambda>days. fst (civil_from_days days))"

definition dt_month :: "cell \<Rightarrow> cell" where
  "dt_month = dt_field (\<lambda>days. fst (snd (civil_from_days days)))"

definition dt_day :: "cell \<Rightarrow> cell" where
  "dt_day = dt_field (\<lambda>days. snd (snd (civil_from_days days)))"

definition dt_dayofweek :: "cell \<Rightarrow> cell" where
  "dt_dayofweek = dt_field dayofweek"

definition dt_isocalendar_week :: "cell \<Rightarrow> cell" where
  "dt_isocalendar_week = dt_field isoweek"

text \<open>
  \<open>.dt\<close> raises \<open>AttributeError\<close> on a column that is not datetime-like, and \<open>pd.cut\<close>
  and the arithmetic of \<open>diff\<close> raise \<open>TypeError\<close> on a column that is not numeric. The
  dtype of a column is read off its cells: timestamps and missing values, or numbers and
  missing values.
\<close>

definition is_datetime_column :: "cell list \<Rightarrow> bool" where
  "is_datetime_column vs = list_all (\<lambda>c. case c of Date t \<Rightarrow> True | Null \<Rightarrow> True | _ \<Rightarrow> False) vs"

definition is_numeric_column :: "cell list \<Rightarrow> bool" where
  "is_numeric_column vs = list_all (\<lambda>c. case c of Num x \<Rightarrow> True | Null \<Rightarrow> True | _ \<Rightarrow> False) vs"

definition require :: "bool \<Rightarrow> unit option" where
  "require b = (if b then Some () else None)"

subsection \<open>\<open>pd.cut\<close>\<close>

definition bins :: "rat list" where
  "bins = [0, 1/2, 1, 3/2, 2, 3]"

definition labels :: "string list" where
  "labels = [''Very Low'', ''Low'', ''Medium'', ''High'', ''Very High'']"

text \<open>\<open>bins.searchsorted(x, side='left')\<close>: the number of edges strictly below \<open>x\<close>.\<close>

definition searchsorted_left :: "rat list \<Rightarrow> num \<Rightarrow> nat" where
  "searchsorted_left bs x = length (takeWhile (\<lambda>b. num_less (Fin b) x) bs)"

text \<open>
  \<open>pd.cut(column, bins, labels, include_lowest=True)\<close> with the default \<open>right=True\<close>, for
  one value: the position among the edges, moved into the first interval when the value
  is the lowest edge; no category for a missing value and for a position outside the
  edges.
\<close>

definition cut :: "rat list \<Rightarrow> string list \<Rightarrow> bool \<Rightarrow> cell \<Rightarrow> cell" where
  "cut bs ls include_lowest c =
     (case c of
        Num x \<Rightarrow>
          (let ids = searchsorted_left bs x;
               ids = (if include_lowest \<and> x = Fin (hd bs) then 1 else ids)
           in if ids = length bs \<or> ids = 0 then Null else Str (ls ! (ids - 1)))
      | _ \<Rightarrow> Null)"

subsection \<open>\<open>groupby\<close>, \<open>diff\<close> and \<open>pct_change\<close>\<close>

text \<open>
  The group of a row is the list of its key cells; a row with a missing key cell is in no
  group (\<open>dropna=True\<close>) and gets a missing result.
\<close>

definition group_keys :: "string list \<Rightarrow> dataframe \<Rightarrow> cell list option list option" where
  "group_keys ks df =
     (if set ks \<subseteq> set (columns df)
      then Some (map (\<lambda>r. if list_all (\<lambda>c. col r c \<noteq> Null) ks
                            then Some (map (col r) ks) else None) (rows df))
      else None)"

text \<open>
  \<open>shift(1)\<close> within the groups, rows taken in table order: each row gets the value of the
  row before it in its group; \<open>m\<close> holds the latest value seen in each group.
\<close>

fun group_shift :: "(cell list \<rightharpoonup> cell) \<Rightarrow> (cell list option \<times> cell) list \<Rightarrow> cell list" where
  "group_shift m [] = []"
| "group_shift m ((None, v) # kvs) = Null # group_shift m kvs"
| "group_shift m ((Some k, v) # kvs) =
     (case m k of None \<Rightarrow> Null | Some p \<Rightarrow> p) # group_shift (m(k \<mapsto> v)) kvs"

text \<open>\<open>ffill()\<close> within the groups: a missing value takes the latest value before it in its group.\<close>

fun group_ffill :: "(cell list \<rightharpoonup> cell) \<Rightarrow> (cell list option \<times> cell) list \<Rightarrow> cell list" where
  "group_ffill m [] = []"
| "group_ffill m ((None, v) # kvs) = Null # group_ffill m kvs"
| "group_ffill m ((Some k, v) # kvs) =
     (let f = (if v = Null then (case m k of None \<Rightarrow> Null | Some p \<Rightarrow> p) else v)
      in f # group_ffill (m(k \<mapsto> f)) kvs)"

text \<open>\<open>SeriesGroupBy.diff()\<close>: the values minus the shifted values.\<close>

definition group_diff :: "cell list option list \<Rightarrow> cell list \<Rightarrow> cell list" where
  "group_diff ks vs = map2 cell_sub vs (group_shift Map.empty (zip ks vs))"

text \<open>
  \<open>SeriesGroupBy.pct_change()\<close>: the values are forward-filled within their group, and the
  result is \<open>filled / shifted - 1\<close>.
\<close>

definition group_pct_change :: "cell list option list \<Rightarrow> cell list \<Rightarrow> cell list" where
  "group_pct_change ks vs =
     (let filled = group_ffill Map.empty (zip ks vs);
          shifted = group_shift Map.empty (zip ks filled)
      in map2 (\<lambda>f s. cell_sub (cell_div f s) (Num (Fin 1))) filled shifted)"

subsection \<open>The function\<close>

text \<open>
  The body of the \<open>try\<close> block, on the copy of the input. A key column (\<open>tpu\<close>, \<open>reactor\<close>)
  that holds anything but numbers and missing values is a fault of the body: how the
  library orders such a column is not part of this model.
\<close>

definition add_derived_body :: "dataframe \<Rightarrow> dataframe option" where
  "add_derived_body df =
     do {
       d \<leftarrow> column df ''date'';
       _ \<leftarrow> require (is_datetime_column d);
       let enhanced_df = set_column ''year'' (map dt_year d) df;
       let enhanced_df = set_column ''month'' (map dt_month d) enhanced_df;
       let enhanced_df = set_column ''day'' (map dt_day d) enhanced_df;
       let enhanced_df = set_column ''day_of_week'' (map dt_dayofweek d) enhanced_df;
       let enhanced_df = set_column ''week_of_year'' (map dt_isocalendar_week d) enhanced_df;
       a \<leftarrow> column enhanced_df ''algae_density'';
       _ \<leftarrow> require (is_numeric_column a);
       let enhanced_df = set_column ''density_category'' (map (cut bins labels True) a) enhanced_df;
       t \<leftarrow> column enhanced_df ''tpu'';
       r \<leftarrow> column enhanced_df ''reactor'';
       _ \<leftarrow> require (is_numeric_column t \<and> is_numeric_column r);
       enhanced_df \<leftarrow> sort_values [''tpu'', ''reactor'', ''date''] enhanced_df;
       g \<leftarrow> group_keys [''tpu'', ''reactor''] enhanced_df;
       a \<leftarrow> column enhanced_df ''algae_density'';
       let enhanced_df = set_column ''density_change'' (group_diff g a) enhanced_df;
       g \<leftarrow> group_keys [''tpu'', ''reactor''] enhanced_df;
       a \<leftarrow> column enhanced_df ''algae_density'';
       let enhanced_df =
         set_column ''density_change_pct''
           (map (\<lambda>c. cell_mul c (Num (Fin 100))) (group_pct_change g a)) enhanced_df;
       Some enhanced_df
     }"

definition add_derived_columns :: "dataframe \<Rightarrow> dataframe" where
  "add_derived_columns df = (case add_derived_body df of Some enhanced \<Rightarrow> enhanced | None \<Rightarrow> df)"

section \<open>The pipeline (\<open>process_flowcam_file\<close>)\<close>

text \<open>
  \<open>pd.read_csv\<close> is a parameter: the table it returns for a path, or \<open>None\<close> when it raises.
\<close>

definition read_flowcam_csv :: "(string \<Rightarrow> dataframe option) \<Rightarrow> string \<Rightarrow> dataframe option" where
  "read_flowcam_csv read_csv file_path =
     (case read_csv file_path of Some df \<Rightarrow> Some df | None \<Rightarrow> None)"

definition process_flowcam_file ::
  "(string \<Rightarrow> dataframe option) \<Rightarrow> (cell \<Rightarrow> int option) \<Rightarrow> (cell \<Rightarrow> num option) \<Rightarrow> string
     \<Rightarrow> dataframe option" where
  "process_flowcam_file read_csv pd pn file_path =
     (case read_flowcam_csv read_csv file_path of
        None \<Rightarrow> None
      | Some df \<Rightarrow>
          (let (validation, df) = validate_flowcam_data pd pn df
           in if \<not> is_valid validation then None
              else (let cleaned_df = clean_flowcam_data pd pn df;
                        enhanced_df = add_derived_columns cleaned_df
                    in Some enhanced_df)))"

section \<open>Notions used in the statements\<close>

text \<open>A table is structurally valid when it has the four required columns.\<close>

definition has_required :: "dataframe \<Rightarrow> bool" where
  "has_required df = (set required_columns \<subseteq> set (columns df))"

text \<open>
  The four coercing assignments of \<open>clean_flowcam_data\<close> and \<open>validate_flowcam_data\<close>, seen
  from one row; \<open>apply_column\<close> is the assignment \<open>df[c] = f(df[c])\<close> to a column the table has.
\<close>

definition apply_column :: "string \<Rightarrow> (cell \<Rightarrow> cell) \<Rightarrow> dataframe \<Rightarrow> dataframe" where
  "apply_column c f df = df\<lparr>rows := map (\<lambda>r. set_cell c r (f (col r c))) (rows df)\<rparr>"

definition coerce_row :: "(cell \<Rightarrow> int option) \<Rightarrow> (cell \<Rightarrow> num option) \<Rightarrow> row \<Rightarrow> row" where
  "coerce_row pd pn r0 =
     (let r1 = set_cell ''date'' r0 (to_datetime pd (col r0 ''date''));
          r2 = set_cell ''tpu'' r1 (to_numeric pn (col r1 ''tpu''));
          r3 = set_cell ''reactor'' r2 (to_numeric pn (col r2 ''reactor''))
      in set_cell ''algae_density'' r3 (to_numeric pn (col r3 ''algae_density'')))"

definition no_missing :: "row \<Rightarrow> bool" where
  "no_missing r = list_all (\<lambda>c. col r c \<noteq> Null) [''date'', ''tpu'', ''reactor'', ''algae_density'']"

text \<open>
  The invariants of a cleaned row: the date is a timestamp, the unit is in 1..10, the
  sub-unit in 1..20 and the measurement in 0..3, all finite and with the bounds included.
\<close>

definition is_date :: "cell \<Rightarrow> bool" where
  "is_date c = (case c of Date t \<Rightarrow> True | _ \<Rightarrow> False)"

definition fin_between :: "rat \<Rightarrow> rat \<Rightarrow> cell \<Rightarrow> bool" where
  "fin_between lo hi c = (case c of Num (Fin q) \<Rightarrow> lo \<le> q \<and> q \<le> hi | _ \<Rightarrow> False)"

definition measurement_record :: "row \<Rightarrow> bool" where
  "measurement_record r =
     (is_date (col r ''date'') \<and>
      fin_between 1 10 (col r ''tpu'') \<and>
      fin_between 1 20 (col r ''reactor'') \<and>
      fin_between 0 3 (col r ''algae_density''))"

text \<open>
  Whether cleaning keeps a row, read off the four required cells of the raw row only, and
  the cells of a row under every other label.
\<close>

definition retained :: "(cell \<Rightarrow> int option) \<Rightarrow> (cell \<Rightarrow> num option) \<Rightarrow> row \<Rightarrow> bool" where
  "retained pd pn r =
     (is_date (to_datetime pd (col r ''date'')) \<and>
      fin_between 1 10 (to_numeric pn (col r ''tpu'')) \<and>
      fin_between 1 20 (to_numeric pn (col r ''reactor'')) \<and>
      fin_between 0 3 (to_numeric pn (col r ''algae_density'')))"

definition extra_cells :: "row \<Rightarrow> (string \<times> cell) list" where
  "extra_cells r = filter (\<lambda>kv. fst kv \<notin> set required_columns) (cells r)"

subsection \<open>A concrete table\<close>

text \<open>
  Seven raw rows with a fifth column \<open>note\<close>: two series, (1, 1) and (2, 3), an unparseable
  date, a unit and a measurement out of range, and a measurement of 0 followed by 0.5. The
  parser of the example knows three date strings; the numbers are already numbers.
\<close>

definition example_pd :: "cell \<Rightarrow> int option" where
  "example_pd c =
     (if c = Str ''2024-01-01'' then Some 1704067200000000000
      else if c = Str ''2024-01-02'' then Some 1704153600000000000
      else if c = Str ''2024-01-03'' then Some 1704240000000000000
      else None)"

definition example_pn :: "cell \<Rightarrow> num option" where
  "example_pn c = None"

definition mk_row :: "nat \<Rightarrow> cell \<Rightarrow> cell \<Rightarrow> cell \<Rightarrow> cell \<Rightarrow> cell \<Rightarrow> row" where
  "mk_row i d t r a n =
     \<lparr>idx = i,
      cells = [(''date'', d), (''tpu'', t), (''reactor'', r), (''algae_density'', a), (''note'', n)]\<rparr>"

definition example_raw :: dataframe where
  "example_raw =
     \<lparr>columns = [''date'', ''tpu'', ''reactor'', ''algae_density'', ''note''],
      rows =
        [mk_row 0 (Str ''2024-01-02'') (Num (Fin 1)) (Num (Fin 1)) (Num (Fin (1/2))) Null,
         mk_row 1 (Str ''invalid-date'') (Num (Fin 2)) (Num (Fin 2)) (Num (Fin 5)) (Str ''x''),
         mk_row 2 (Str ''2024-01-01'') (Num (Fin 1)) (Num (Fin 1)) (Num (Fin 0)) (Str ''recalibrated''),
         mk_row 3 (Str ''2024-01-01'') (Num (Fin 15)) (Num (Fin 1)) (Num (Fin 1)) Null,
         mk_row 4 (Str ''2024-01-03'') (Num (Fin 1)) (Num (Fin 1)) (Num (Fin 0)) Null,
         mk_row 5 (Str ''2024-01-01'') (Num (Fin 2)) (Num (Fin 3)) (Num (Fin (6/5))) (Num (Fin 7)),
         mk_row 6 (Str ''2024-01-02'') (Num (Fin 2)) (Num (Fin 3)) (Num (Fin (3/2))) Null]\<rparr>"

definition example_cleaned :: dataframe where
  "example_cleaned =
     \<lparr>columns = [''date'', ''tpu'', ''reactor'', ''algae_density'', ''note''],
      rows =
        [mk_row 0 (Date 1704067200000000000) (Num (Fin 1)) (Num (Fin 1)) (Num (Fin 0)) (Str ''recalibrated''),
         mk_row 1 (Date 1704067200000000000) (Num (Fin 2)) (Num (Fin 3)) (Num (Fin (6/5))) (Num (Fin 7)),
         mk_row 2 (Date 1704153600000000000) (Num (Fin 1)) (Num (Fin 1)) (Num (Fin (1/2))) Null,
         mk_row 3 (Date 1704153600000000000) (Num (Fin 2)) (Num (Fin 3)) (Num (Fin (3/2))) Null,
         mk_row 4 (Date 1704240000000000000) (Num (Fin 1)) (Num (Fin 1)) (Num (Fin 0)) Null]\<rparr>"

text \<open>Two raw rows that agree on the four required columns and differ in their note.\<close>

definition example_row_a :: row where
  "example_row_a =
     mk_row 2 (Str ''2024-01-01'') (Num (Fin 1)) (Num (Fin 1)) (Num (Fin 0)) (Str ''recalibrated'')"

definition example_row_b :: row where
  "example_row_b = mk_row 2 (Str ''2024-01-01'') (Num (Fin 1)) (Num (Fin 1)) (Num (Fin 0)) Null"

text \<open>
  The tables of the repository's unit tests \<open>test_validate_flowcam_data_missing_columns\<close>
  and \<open>test_validate_flowcam_data_valid\<close>.
\<close>

definition example_missing :: dataframe where
  "example_missing =
     \<lparr>columns = [''date'', ''tpu''],
      rows = [\<lparr>idx = 0, cells = [(''date'', Str ''2024-01-01''), (''tpu'', Num (Fin 1))]\<rparr>]\<rparr>"

definition example_valid :: dataframe where
  "example_valid =
     \<lparr>columns = [''date'', ''tpu'', ''reactor'', ''algae_density''],
      rows =
        [\<lparr>idx = 0, cells = [(''date'', Str ''2024-01-01''), (''tpu'', Num (Fin 1)),
                             (''reactor'', Num (Fin 1)), (''algae_density'', Num (Fin (6/5)))]\<rparr>,
         \<lparr>idx = 1, cells = [(''date'', Str ''2024-01-02''), (''tpu'', Num (Fin 2)),
                             (''reactor'', Num (Fin 2)), (''algae_density'', Num (Fin (3/2)))]\<rparr>]\<rparr>"

subsection \<open>Notions for the derived columns\<close>


definition values_of :: "string \<Rightarrow> dataframe \<Rightarrow> cell list" where
  "values_of c df = map (\<lambda>r. col r c) (rows df)"

definition gkey :: "row \<Rightarrow> cell list option" where
  "gkey r = (if list_all (\<lambda>c. col r c \<noteq> Null) [''tpu'', ''reactor'']
             then Some (map (col r) [''tpu'', ''reactor'']) else None)"


text \<open>
  The three stages of the body: the calendar fields and the category, the sort into series
  order, and the two growth columns.
\<close>

definition with_calendar :: "dataframe \<Rightarrow> dataframe" where
  "with_calendar df =
     (let d = values_of ''date'' df;
          e = set_column ''year'' (map dt_year d) df;
          e = set_column ''month'' (map dt_month d) e;
          e = set_column ''day'' (map dt_day d) e;
          e = set_column ''day_of_week'' (map dt_dayofweek d) e;
          e = set_column ''week_of_year'' (map dt_isocalendar_week d) e
      in set_column ''density_category'' (map (cut bins labels True) (values_of ''algae_density'' e)) e)"


definition with_growth :: "dataframe \<Rightarrow> dataframe" where
  "with_growth s =
     (let e = set_column ''density_change''
                (group_diff (map gkey (rows s)) (values_of ''algae_density'' s)) s
      in set_column ''density_change_pct''
           (map (\<lambda>c. cell_mul c (Num (Fin 100)))
              (group_pct_change (map gkey (rows e)) (values_of ''algae_density'' e))) e)"

definition growth_labels :: "string list" where
  "growth_labels = [''density_change'', ''density_change_pct'']"


definition select :: "bool list \<Rightarrow> 'a list \<Rightarrow> 'a list" where
  "select bs xs = map snd (filter fst (zip bs xs))"




definition mk_enriched ::
  "nat \<Rightarrow> int \<Rightarrow> rat \<Rightarrow> rat \<Rightarrow> rat \<Rightarrow> cell \<Rightarrow> rat \<Rightarrow> rat \<Rightarrow> string \<Rightarrow> cell \<Rightarrow> cell \<Rightarrow> row" where
  "mk_enriched i d t r a n dd dw cat ch pct =
     \<lparr>idx = i,
      cells =
        [(''date'', Date d), (''tpu'', Num (Fin t)), (''reactor'', Num (Fin r)),
         (''algae_density'', Num (Fin a)), (''note'', n),
         (''year'', Num (Fin 2024)), (''month'', Num (Fin 1)), (''day'', Num (Fin dd)),
         (''day_of_week'', Num (Fin dw)), (''week_of_year'', Num (Fin 1)),
         (''density_category'', Str cat), (''density_change'', ch),
         (''density_change_pct'', pct)]\<rparr>"

definition example_enriched :: dataframe where
  "example_enriched =
     \<lparr>columns =
        [''date'', ''tpu'', ''reactor'', ''algae_density'', ''note'', ''year'', ''month'', ''day'',
         ''day_of_week'', ''week_of_year'', ''density_category'', ''density_change'',
         ''density_change_pct''],
      rows =
        [mk_enriched 0 1704067200000000000 1 1 0 (Str ''recalibrated'') 1 0 ''Very Low''
           Null Null,
         mk_enriched 2 1704153600000000000 1 1 (1/2) Null 2 1 ''Very Low''
           (Num (Fin (1/2))) (Num PInf),
         mk_enriched 4 1704240000000000000 1 1 0 Null 3 2 ''Very Low''
           (Num (Fin (- (1/2)))) (Num (Fin (- 100))),
         mk_enriched 1 1704067200000000000 2 3 (6/5) (Num (Fin 7)) 1 0 ''Medium''
           Null Null,
         mk_enriched 3 1704153600000000000 2 3 (3/2) Null 2 1 ''Medium''
           (Num (Fin (3/10))) (Num (Fin 25))]\<rparr>"

section \<open>Properties of cleaning\<close>

subsection \<open>Rows, cells and the index\<close>

lemma map2_same: "map2 g xs (map h xs) = map (\<lambda>x. g x (h x)) xs"
  by (induction xs) auto

lemma col_set_cell: "col (set_cell c r v) c' = (if c' = c then v else col r c')"
  by (simp add: col_def set_cell_def update_conv')

lemma col_idx [simp]: "col (r\<lparr>idx := i\<rparr>) c = col r c"
  by (simp add: col_def)

lemma row_key_idx [simp]: "row_key ks (r\<lparr>idx := i\<rparr>) = row_key ks r"
  by (simp add: row_key_def)

lemma columns_apply_column [simp]: "columns (apply_column c f df) = columns df"
  by (simp add: apply_column_def)

lemma rows_apply_column:
  "rows (apply_column c f df) = map (\<lambda>r. set_cell c r (f (col r c))) (rows df)"
  by (simp add: apply_column_def)

lemma coerce_step:
  assumes "c \<in> set (columns df)"
  shows "column df c = Some (map (\<lambda>r. col r c) (rows df))"
    and "set_column c (map f (map (\<lambda>r. col r c) (rows df))) df = apply_column c f df"
proof -
  have "map2 (set_cell c) (rows df) (map f (map (\<lambda>r. col r c) (rows df)))
          = map (\<lambda>r. set_cell c r (f (col r c))) (rows df)"
    using map2_same [of "set_cell c" "rows df" "\<lambda>r. f (col r c)"] by (simp add: o_def)
  then show "set_column c (map f (map (\<lambda>r. col r c) (rows df))) df = apply_column c f df"
    using assms by (simp add: set_column_def apply_column_def)
  show "column df c = Some (map (\<lambda>r. col r c) (rows df))"
    using assms by (simp add: column_def)
qed

lemma coerce_rows:
  "rows (apply_column ''algae_density'' (to_numeric pn)
      (apply_column ''reactor'' (to_numeric pn)
        (apply_column ''tpu'' (to_numeric pn)
          (apply_column ''date'' (to_datetime pd) df))))
   = map (coerce_row pd pn) (rows df)"
  by (simp add: rows_apply_column coerce_row_def Let_def o_def)

lemma has_requiredD:
  assumes "has_required df"
  shows "''date'' \<in> set (columns df)" "''tpu'' \<in> set (columns df)"
    "''reactor'' \<in> set (columns df)" "''algae_density'' \<in> set (columns df)"
  using assms by (auto simp: has_required_def required_columns_def)

lemma map_reindex:
  assumes "\<And>r i. g (r\<lparr>idx := i\<rparr>) = g r"
  shows "map g (reindex rs) = map g rs"
proof -
  have "map g (reindex rs) = map (g \<circ> snd) (enumerate 0 rs)"
    unfolding reindex_def by (simp add: assms split_def o_def)
  also have "\<dots> = map g (map snd (enumerate 0 rs))" by (simp only: map_map)
  also have "\<dots> = map g rs" by (simp only: map_snd_enumerate)
  finally show ?thesis .
qed

lemma set_reindex:
  assumes "r \<in> set (reindex rs)"
  obtains r0 i where "r0 \<in> set rs" "r = r0\<lparr>idx := i\<rparr>"
proof -
  from assms obtain p where p: "p \<in> set (enumerate 0 rs)" "r = (snd p)\<lparr>idx := fst p\<rparr>"
    by (auto simp: reindex_def)
  then have "snd p \<in> set rs"
    by (metis in_set_zipE enumerate_eq_zip prod.collapse)
  with p that show thesis by blast
qed

lemma length_reindex [simp]: "length (reindex rs) = length rs"
  by (simp add: reindex_def)

lemma nth_reindex: "i < length rs \<Longrightarrow> reindex rs ! i = (rs ! i)\<lparr>idx := i\<rparr>"
  by (simp add: reindex_def nth_enumerate_eq)

lemma reindex_reindex: "reindex (reindex rs) = reindex rs"
  by (rule nth_equalityI) (simp_all add: nth_reindex)

subsection \<open>What the body of \<open>clean_flowcam_data\<close> computes\<close>

lemma clean_body_rows:
  assumes "has_required df"
  shows "clean_body pd pn df =
    Some (df\<lparr>rows := reindex (sort_key (row_key [''date'', ''tpu'', ''reactor''])
            (filter in_range (filter no_missing (map (coerce_row pd pn) (rows df)))))\<rparr>)"
proof -
  note c = has_requiredD [OF assms]
  define d4 where "d4 = apply_column ''algae_density'' (to_numeric pn)
      (apply_column ''reactor'' (to_numeric pn)
        (apply_column ''tpu'' (to_numeric pn)
          (apply_column ''date'' (to_datetime pd) df)))"
  have cols: "columns d4 = columns df" by (simp add: d4_def)
  have rws: "rows d4 = map (coerce_row pd pn) (rows df)" unfolding d4_def by (rule coerce_rows)
  have "clean_body pd pn df =
     (let cleaned_df = dropna [''date'', ''tpu'', ''reactor'', ''algae_density''] d4;
          cleaned_df = cleaned_df\<lparr>rows := filter in_range (rows cleaned_df)\<rparr>
      in sort_values [''date'', ''tpu'', ''reactor''] cleaned_df
           \<bind> (\<lambda>cleaned_df. Some (reset_index cleaned_df)))"
    unfolding clean_body_def Let_def d4_def
    by (simp only: coerce_step c columns_apply_column Option.bind.simps)
  also have "\<dots> = Some (d4\<lparr>rows := reindex (sort_key (row_key [''date'', ''tpu'', ''reactor''])
            (filter in_range (filter no_missing (rows d4))))\<rparr>)"
    by (simp add: Let_def dropna_def sort_values_def reset_index_def no_missing_def cols c)
  also have "d4\<lparr>rows := reindex (sort_key (row_key [''date'', ''tpu'', ''reactor''])
            (filter in_range (filter no_missing (rows d4))))\<rparr>
      = df\<lparr>rows := reindex (sort_key (row_key [''date'', ''tpu'', ''reactor''])
            (filter in_range (filter no_missing (map (coerce_row pd pn) (rows df)))))\<rparr>"
    unfolding rws by (simp add: d4_def apply_column_def)
  finally show ?thesis .
qed

lemma clean_rows:
  assumes "has_required df"
  shows "clean_flowcam_data pd pn df =
    df\<lparr>rows := reindex (sort_key (row_key [''date'', ''tpu'', ''reactor''])
            (filter in_range (filter no_missing (map (coerce_row pd pn) (rows df)))))\<rparr>"
  by (simp add: clean_flowcam_data_def clean_body_rows [OF assms])

subsection \<open>Coerced rows and the range filter\<close>

lemma between_fin: "cell_ge c lo \<Longrightarrow> cell_le c hi \<Longrightarrow> fin_between lo hi c"
  by (auto simp: cell_ge_def cell_le_def fin_between_def num_le_def split: cell.splits num.splits)

lemma in_range_fin:
  assumes "in_range r"
  shows "fin_between 1 10 (col r ''tpu'')" "fin_between 1 20 (col r ''reactor'')"
    "fin_between 0 3 (col r ''algae_density'')"
  using assms
  by (auto simp: in_range_def valid_tpu_range_def valid_reactor_range_def valid_density_range_def
      intro: between_fin)

lemma col_coerce_row:
  "col (coerce_row pd pn r) c =
     (if c = ''date'' then to_datetime pd (col r ''date'')
      else if c = ''tpu'' then to_numeric pn (col r ''tpu'')
      else if c = ''reactor'' then to_numeric pn (col r ''reactor'')
      else if c = ''algae_density'' then to_numeric pn (col r ''algae_density'')
      else col r c)"
  by (simp add: coerce_row_def Let_def col_set_cell)

lemma to_datetime_cases: "to_datetime pd c = Null \<or> is_date (to_datetime pd c)"
  by (simp add: to_datetime_def is_date_def split: cell.splits option.splits)

lemma coerced_no_missing_date:
  "no_missing (coerce_row pd pn r) \<Longrightarrow> is_date (col (coerce_row pd pn r) ''date'')"
  using to_datetime_cases [of pd "col r ''date''"]
  by (auto simp: no_missing_def col_coerce_row)

lemma measurement_record_idx [simp]: "measurement_record (r\<lparr>idx := i\<rparr>) = measurement_record r"
  by (simp add: measurement_record_def)

lemma fin_between_Num: "fin_between lo hi c \<Longrightarrow> \<exists>q. c = Num (Fin q) \<and> lo \<le> q \<and> q \<le> hi"
  by (auto simp: fin_between_def split: cell.splits num.splits)

lemma is_date_Date: "is_date c \<Longrightarrow> \<exists>t. c = Date t"
  by (auto simp: is_date_def split: cell.splits)

lemma set_cell_same: "col r c = v \<Longrightarrow> v \<noteq> Null \<Longrightarrow> set_cell c r v = r"
  by (auto simp: col_def set_cell_def update_triv split: option.splits)

lemma coerce_row_fixed:
  assumes "measurement_record r"
  shows "coerce_row pd pn r = r"
proof -
  from assms obtain t u s m where v: "col r ''date'' = Date t" "col r ''tpu'' = Num (Fin u)"
    "col r ''reactor'' = Num (Fin s)" "col r ''algae_density'' = Num (Fin m)"
    unfolding measurement_record_def by (blast dest: is_date_Date fin_between_Num)
  have d: "set_cell ''date'' r (to_datetime pd (col r ''date'')) = r"
    by (rule set_cell_same) (simp_all add: v to_datetime_def)
  have t: "set_cell ''tpu'' r (to_numeric pn (col r ''tpu'')) = r"
    by (rule set_cell_same) (simp_all add: v to_numeric_def)
  have s: "set_cell ''reactor'' r (to_numeric pn (col r ''reactor'')) = r"
    by (rule set_cell_same) (simp_all add: v to_numeric_def)
  have m: "set_cell ''algae_density'' r (to_numeric pn (col r ''algae_density'')) = r"
    by (rule set_cell_same) (simp_all add: v to_numeric_def)
  show ?thesis
    unfolding coerce_row_def Let_def by (simp only: d t s m)
qed

lemma measurement_record_kept:
  assumes "measurement_record r"
  shows "no_missing r" "in_range r"
proof -
  from assms obtain t u s m where v: "col r ''date'' = Date t"
    "col r ''tpu'' = Num (Fin u)" "1 \<le> u" "u \<le> 10"
    "col r ''reactor'' = Num (Fin s)" "1 \<le> s" "s \<le> 20"
    "col r ''algae_density'' = Num (Fin m)" "0 \<le> m" "m \<le> 3"
    unfolding measurement_record_def by (blast dest: is_date_Date fin_between_Num)
  show "no_missing r" by (simp add: no_missing_def v)
  show "in_range r"
    using v by (simp add: in_range_def cell_ge_def cell_le_def num_le_def valid_tpu_range_def
        valid_reactor_range_def valid_density_range_def less_le)
qed

lemma kept_measurement_record:
  assumes "no_missing (coerce_row pd pn r)" "in_range (coerce_row pd pn r)"
  shows "measurement_record (coerce_row pd pn r)"
  using in_range_fin [OF assms(2)] coerced_no_missing_date [OF assms(1)]
  by (simp add: measurement_record_def)

lemma cleaned_rows_records:
  assumes "has_required t" "r \<in> set (rows (clean_flowcam_data pd pn t))"
  shows "measurement_record r"
proof -
  from assms have "r \<in> set (reindex (sort_key (row_key [''date'', ''tpu'', ''reactor''])
            (filter in_range (filter no_missing (map (coerce_row pd pn) (rows t))))))"
    by (simp add: clean_rows)
  then obtain r0 i where r0: "r0 \<in> set (sort_key (row_key [''date'', ''tpu'', ''reactor''])
            (filter in_range (filter no_missing (map (coerce_row pd pn) (rows t)))))"
    and r: "r = r0\<lparr>idx := i\<rparr>" by (rule set_reindex)
  from r0 obtain q where "r0 = coerce_row pd pn q" "no_missing r0" "in_range r0"
    by auto
  then have "measurement_record r0"
    using kept_measurement_record by blast
  then show ?thesis by (simp add: r)
qed

lemma kept_iff_retained:
  "(no_missing (coerce_row pd pn r) \<and> in_range (coerce_row pd pn r)) = retained pd pn r"
proof
  assume "no_missing (coerce_row pd pn r) \<and> in_range (coerce_row pd pn r)"
  then have "measurement_record (coerce_row pd pn r)"
    by (simp add: kept_measurement_record)
  then show "retained pd pn r"
    by (simp add: measurement_record_def retained_def col_coerce_row)
next
  assume "retained pd pn r"
  then have "measurement_record (coerce_row pd pn r)"
    by (simp add: measurement_record_def retained_def col_coerce_row)
  then show "no_missing (coerce_row pd pn r) \<and> in_range (coerce_row pd pn r)"
    by (simp add: measurement_record_kept)
qed

lemma extra_cells_set_cell:
  assumes "c \<in> set required_columns"
  shows "extra_cells (set_cell c r v) = extra_cells r"
proof -
  have "filter (\<lambda>kv. fst kv \<notin> set required_columns) (AList.update c v al)
          = filter (\<lambda>kv. fst kv \<notin> set required_columns) al" for al
    using assms by (induction al) auto
  then show ?thesis by (simp add: extra_cells_def set_cell_def)
qed

lemma extra_cells_coerce_row: "extra_cells (coerce_row pd pn r) = extra_cells r"
  by (simp add: coerce_row_def Let_def extra_cells_set_cell required_columns_def)

subsection \<open>The example\<close>

lemma example_has_required: "has_required example_raw"
  by (simp add: has_required_def required_columns_def example_raw_def)

lemma example_clean: "clean_flowcam_data example_pd example_pn example_raw = example_cleaned"
  by code_simp

subsection \<open>The claims about cleaning\<close>



text \<open>
  C8. Cleaning is idempotent: for every structurally valid table, cleaning the cleaned
  table gives the cleaned table again, with the same columns, rows, row order and index.
\<close>

theorem clean_idempotent:
  assumes "has_required t"
  shows "clean_flowcam_data pd pn (clean_flowcam_data pd pn t) = clean_flowcam_data pd pn t"
proof -
  let ?K = "row_key [''date'', ''tpu'', ''reactor'']"
  define S where
    "S = sort_key ?K (filter in_range (filter no_missing (map (coerce_row pd pn) (rows t))))"
  have c1: "clean_flowcam_data pd pn t = t\<lparr>rows := reindex S\<rparr>"
    unfolding S_def by (rule clean_rows [OF assms])
  have req: "has_required (t\<lparr>rows := reindex S\<rparr>)"
    using assms by (simp add: has_required_def)
  have mr: "\<forall>r \<in> set (reindex S). measurement_record r"
    using cleaned_rows_records [OF assms, of _ pd pn] by (simp add: c1)
  have 1: "map (coerce_row pd pn) (reindex S) = reindex S"
    using mr by (simp add: map_idI coerce_row_fixed)
  have 2: "filter no_missing (reindex S) = reindex S"
    using mr by (simp add: measurement_record_kept)
  have 3: "filter in_range (reindex S) = reindex S"
    using mr by (simp add: measurement_record_kept)
  have "map ?K (reindex S) = map ?K S" by (rule map_reindex) simp
  then have "sorted (map ?K (reindex S))" by (simp add: S_def)
  then have 4: "sort_key ?K (reindex S) = reindex S" by (rule sort_key_id_if_sorted)
  have "clean_flowcam_data pd pn (t\<lparr>rows := reindex S\<rparr>) = t\<lparr>rows := reindex S\<rparr>"
    by (simp add: clean_rows [OF req] 1 2 3 4 reindex_reindex)
  then show ?thesis by (simp add: c1)
qed

theorem clean_idempotent_witness:
  "has_required example_raw
   \<and> clean_flowcam_data example_pd example_pn
        (clean_flowcam_data example_pd example_pn example_raw) = example_cleaned"
  using clean_idempotent [OF example_has_required, of example_pd example_pn]
  by (simp add: example_has_required example_clean)

text \<open>
  C10. On its normal path cleaning decides on a row from its four required fields alone:
  the cleaned rows are, with multiplicity, the coerced raw rows whose four coerced fields
  are present and in range; two rows that agree on the four required columns are both
  kept or both dropped, whatever their other cells hold; and the cells under every other
  label are the same in the coerced row as in the raw row.
\<close>

theorem clean_keeps_rows_by_required_fields:
  assumes "has_required t"
  shows "mset (map cells (rows (clean_flowcam_data pd pn t)))
           = mset (map (\<lambda>r. cells (coerce_row pd pn r)) (filter (retained pd pn) (rows t)))
       \<and> (\<forall>r r'. (\<forall>c \<in> set required_columns. col r c = col r' c)
             \<longrightarrow> retained pd pn r = retained pd pn r')
       \<and> (\<forall>r. extra_cells (coerce_row pd pn r) = extra_cells r)
       \<and> (\<forall>r c. c \<notin> set required_columns \<longrightarrow> col (coerce_row pd pn r) c = col r c)"
proof (intro conjI allI impI)
  let ?K = "row_key [''date'', ''tpu'', ''reactor'']"
  have f: "filter in_range (filter no_missing (map (coerce_row pd pn) (rows t)))
         = map (coerce_row pd pn) (filter (retained pd pn) (rows t))"
  proof -
    have "(in_range (coerce_row pd pn r) \<and> no_missing (coerce_row pd pn r)) = retained pd pn r" for r
      using kept_iff_retained [of pd pn r] by blast
    then show ?thesis by (simp add: filter_map o_def kept_iff_retained)
  qed
  have mc: "map cells (reindex xs) = map cells xs" for xs
    by (rule map_reindex) simp
  have r: "rows (clean_flowcam_data pd pn t)
      = reindex (sort_key ?K (map (coerce_row pd pn) (filter (retained pd pn) (rows t))))"
    unfolding f [symmetric] by (simp add: clean_rows [OF assms])
  have "mset (map cells (rows (clean_flowcam_data pd pn t)))
      = mset (map cells (sort_key ?K (map (coerce_row pd pn) (filter (retained pd pn) (rows t)))))"
    by (simp only: r mc)
  also have "\<dots> = image_mset cells
      (mset (sort_key ?K (map (coerce_row pd pn) (filter (retained pd pn) (rows t)))))"
    by simp
  also have "\<dots> = mset (map (\<lambda>r. cells (coerce_row pd pn r)) (filter (retained pd pn) (rows t)))"
    by (simp only: mset_sort) (simp add: multiset.map_comp o_def)
  finally show "mset (map cells (rows (clean_flowcam_data pd pn t)))
           = mset (map (\<lambda>r. cells (coerce_row pd pn r)) (filter (retained pd pn) (rows t)))" .
next
  fix r r' assume "\<forall>c \<in> set required_columns. col r c = col r' c"
  then show "retained pd pn r = retained pd pn r'"
    by (simp add: retained_def required_columns_def)
next
  fix r show "extra_cells (coerce_row pd pn r) = extra_cells r" by (rule extra_cells_coerce_row)
next
  fix r c assume "c \<notin> set required_columns"
  then show "col (coerce_row pd pn r) c = col r c"
    by (auto simp: col_coerce_row required_columns_def)
qed

theorem clean_keeps_rows_by_required_fields_witness:
  "has_required example_raw
   \<and> mset (map cells (rows (clean_flowcam_data example_pd example_pn example_raw)))
       = mset (map (\<lambda>r. cells (coerce_row example_pd example_pn r))
                (filter (retained example_pd example_pn) (rows example_raw)))
   \<and> list_all (\<lambda>c. col example_row_a c = col example_row_b c) required_columns
   \<and> retained example_pd example_pn example_row_a = retained example_pd example_pn example_row_b
   \<and> retained example_pd example_pn example_row_a
   \<and> ''note'' \<notin> set required_columns
   \<and> col (coerce_row example_pd example_pn example_row_a) ''note'' = Str ''recalibrated''"
proof -
  note T = clean_keeps_rows_by_required_fields [OF example_has_required, of example_pd example_pn]
  have a: "\<forall>c \<in> set required_columns. col example_row_a c = col example_row_b c"
    by (simp add: required_columns_def col_def example_row_a_def example_row_b_def mk_row_def)
  have n: "''note'' \<notin> set required_columns"
    by (simp add: required_columns_def)
  from T a have b: "retained example_pd example_pn example_row_a
      = retained example_pd example_pn example_row_b"
    by blast
  have k: "retained example_pd example_pn example_row_a"
    by (simp add: retained_def col_def example_row_a_def mk_row_def to_datetime_def to_numeric_def
        example_pd_def is_date_def fin_between_def)
  from T n have "col (coerce_row example_pd example_pn example_row_a) ''note''
      = col example_row_a ''note''"
    by blast
  then have c: "col (coerce_row example_pd example_pn example_row_a) ''note'' = Str ''recalibrated''"
    by (simp add: col_def example_row_a_def mk_row_def)
  from a have a': "list_all (\<lambda>c. col example_row_a c = col example_row_b c) required_columns"
    by (simp only: list_all_iff)
  from T example_has_required a' b k n c show ?thesis by blast
qed

section \<open>Properties of validation\<close>

lemma is_valid_warn_if [simp]: "is_valid (warn_if n msg res) = is_valid res"
  by (simp add: warn_if_def)

lemma validate_body_table:
  assumes "has_required df"
  shows "\<exists>res. validate_body pd pn res0 df = Some (res, df\<lparr>rows := map (coerce_row pd pn) (rows df)\<rparr>)
     \<and> is_valid res = is_valid res0 \<and> errors res = errors res0"
proof -
  note c = has_requiredD [OF assms]
  define d4 where "d4 = apply_column ''algae_density'' (to_numeric pn)
      (apply_column ''reactor'' (to_numeric pn)
        (apply_column ''tpu'' (to_numeric pn)
          (apply_column ''date'' (to_datetime pd) df)))"
  have rws: "rows d4 = map (coerce_row pd pn) (rows df)" unfolding d4_def by (rule coerce_rows)
  have d4: "d4 = df\<lparr>rows := map (coerce_row pd pn) (rows df)\<rparr>"
    unfolding rws [symmetric] by (simp add: d4_def apply_column_def)
  have "\<exists>res. validate_body pd pn res0 df = Some (res, d4) \<and> is_valid res = is_valid res0
      \<and> errors res = errors res0"
    unfolding validate_body_def Let_def d4_def
    by (simp only: coerce_step c columns_apply_column Option.bind.simps) (simp add: warn_if_def)
  then show ?thesis by (simp only: d4)
qed


lemma missing_columns_empty:
  "(filter (\<lambda>c. c \<notin> set (columns df)) required_columns = []) = has_required df"
  by (auto simp: has_required_def filter_empty_conv)

lemma validate_structurally_valid:
  assumes "has_required df"
  shows "\<exists>res. validate_flowcam_data pd pn df = (res, df\<lparr>rows := map (coerce_row pd pn) (rows df)\<rparr>)
     \<and> is_valid res \<and> errors res = []"
proof -
  let ?res0 = "\<lparr>is_valid = True, errors = [], warnings = [],
             row_count = length (rows df), column_count = length (columns df)\<rparr>"
  from validate_body_table [OF assms, of pd pn ?res0]
  obtain res where r: "validate_body pd pn ?res0 df = Some (res, df\<lparr>rows := map (coerce_row pd pn) (rows df)\<rparr>)"
    "is_valid res" "errors res = []" by auto
  have "validate_flowcam_data pd pn df = (res, df\<lparr>rows := map (coerce_row pd pn) (rows df)\<rparr>)"
    unfolding validate_flowcam_data_def Let_def
    by (simp add: missing_columns_empty assms r(1))
  with r show ?thesis by blast
qed

lemma validate_structurally_invalid:
  assumes "\<not> has_required df"
  shows "validate_flowcam_data pd pn df =
           (\<lparr>is_valid = False,
             errors = [Missing_required_columns (filter (\<lambda>c. c \<notin> set (columns df)) required_columns)],
             warnings = [],
             row_count = length (rows df), column_count = length (columns df)\<rparr>, df)"
proof -
  from assms have "filter (\<lambda>c. c \<notin> set (columns df)) required_columns \<noteq> []"
    by (simp add: missing_columns_empty)
  then show ?thesis
    unfolding validate_flowcam_data_def Let_def by simp
qed

text \<open>
  C6. For every table that lacks at least one of the four required columns, the report has
  \<open>is_valid = False\<close>, exactly one error, which lists the missing required labels (there is
  at least one), and no warnings; the table is returned as it was received, so no column
  was coerced and no range was checked.
\<close>

theorem validate_missing_columns:
  assumes "\<not> has_required df"
  shows "validate_flowcam_data pd pn df =
           (\<lparr>is_valid = False,
             errors = [Missing_required_columns (filter (\<lambda>c. c \<notin> set (columns df)) required_columns)],
             warnings = [],
             row_count = length (rows df), column_count = length (columns df)\<rparr>, df)
       \<and> filter (\<lambda>c. c \<notin> set (columns df)) required_columns \<noteq> []
       \<and> set (filter (\<lambda>c. c \<notin> set (columns df)) required_columns)
           = set required_columns - set (columns df)"
proof -
  from assms have "filter (\<lambda>c. c \<notin> set (columns df)) required_columns \<noteq> []"
    by (simp add: missing_columns_empty)
  moreover have "set (filter (\<lambda>c. c \<notin> set (columns df)) required_columns)
           = set required_columns - set (columns df)" by auto
  ultimately show ?thesis
    using validate_structurally_invalid [OF assms, of pd pn] by blast
qed

theorem validate_missing_columns_witness:
  "\<not> has_required example_missing
   \<and> validate_flowcam_data example_pd example_pn example_missing =
       (\<lparr>is_valid = False,
         errors = [Missing_required_columns [''reactor'', ''algae_density'']],
         warnings = [], row_count = 1, column_count = 2\<rparr>, example_missing)"
proof -
  have h: "\<not> has_required example_missing"
    by (simp add: has_required_def required_columns_def example_missing_def)
  have "filter (\<lambda>c. c \<notin> set (columns example_missing)) required_columns
      = [''reactor'', ''algae_density'']"
    by (simp add: required_columns_def example_missing_def)
  moreover have "length (rows example_missing) = 1" "length (columns example_missing) = 2"
    by (simp_all add: example_missing_def)
  ultimately show ?thesis
    using validate_missing_columns [OF h, of example_pd example_pn] h by simp
qed

text \<open>
  C1. The claim is that validation leaves the caller's table as it was. On the table of the
  repository's test \<open>test_validate_flowcam_data_valid\<close> the report is valid and the \<open>date\<close>
  column of the caller's table holds text before the call and timestamps after it.
\<close>

theorem validate_overwrites_date_column:
  "map (\<lambda>r. col r ''date'') (rows example_valid) = [Str ''2024-01-01'', Str ''2024-01-02'']
   \<and> is_valid (fst (validate_flowcam_data example_pd example_pn example_valid))
   \<and> map (\<lambda>r. col r ''date'') (rows (snd (validate_flowcam_data example_pd example_pn example_valid)))
       = [Date 1704067200000000000, Date 1704153600000000000]"
  by code_simp


section \<open>Properties of the derived columns\<close>

subsection \<open>The density categories\<close>


subsection \<open>Column assignment\<close>


lemma rows_set_column: "rows (set_column c vs df) = map2 (set_cell c) (rows df) vs"
  by (simp add: set_column_def)




lemma length_rows_set_column [simp]:
  "length (rows (set_column c vs df)) = min (length (rows df)) (length vs)"
  by (simp add: rows_set_column)

lemma values_of_set_column:
  "length vs = length (rows df) \<Longrightarrow>
   values_of c' (set_column c vs df) = (if c' = c then vs else values_of c' df)"
  by (auto simp: values_of_def rows_set_column col_set_cell map2_map_map [symmetric] o_def
      intro!: nth_equalityI)

lemma length_values_of [simp]: "length (values_of c df) = length (rows df)"
  by (simp add: values_of_def)


lemma length_rows_with_calendar [simp]: "length (rows (with_calendar df)) = length (rows df)"
  by (simp add: with_calendar_def Let_def rows_set_column)

subsection \<open>What the body of \<open>add_derived_columns\<close> computes\<close>


subsection \<open>Masks and the group-wise shift and fill\<close>

lemma select_simps [simp]:
  "select [] xs = []" "select bs [] = []"
  "select (b # bs) (x # xs) = (if b then x # select bs xs else select bs xs)"
  by (simp_all add: select_def)




lemma length_group_shift [simp]: "length (group_shift m kvs) = length kvs"
  by (induction m kvs rule: group_shift.induct) (simp_all add: fun_upd_def)

lemma length_group_ffill [simp]: "length (group_ffill m kvs) = length kvs"
  by (induction m kvs rule: group_ffill.induct) (simp_all add: Let_def fun_upd_def)





subsection \<open>The growth columns, column by column and series by series\<close>

lemma col_nth_values: "i < length (rows df) \<Longrightarrow> col (rows df ! i) c = values_of c df ! i"
  by (simp add: values_of_def)

lemma map_rows_cong:
  assumes len: "length (rows a) = length (rows b)"
    and vals: "\<And>c. c \<in> set cs \<Longrightarrow> values_of c a = values_of c b"
    and dep: "\<And>r r'. (\<forall>c \<in> set cs. col r c = col r' c) \<Longrightarrow> g r = g r'"
  shows "map g (rows a) = map g (rows b)"
proof (rule nth_equalityI)
  show "length (map g (rows a)) = length (map g (rows b))" using len by simp
next
  fix i assume "i < length (map g (rows a))"
  then have i: "i < length (rows a)" "i < length (rows b)" using len by simp_all
  have "\<forall>c \<in> set cs. col (rows a ! i) c = col (rows b ! i) c"
    using i vals by (simp add: col_nth_values)
  then have "g (rows a ! i) = g (rows b ! i)" by (rule dep)
  then show "map g (rows a) ! i = map g (rows b) ! i" using i by simp
qed

lemma length_group_diff:
  "length ks = length vs \<Longrightarrow> length (group_diff ks vs) = length vs"
  by (simp add: group_diff_def)

lemma length_group_pct_change:
  "length ks = length vs \<Longrightarrow> length (group_pct_change ks vs) = length vs"
  by (simp add: group_pct_change_def Let_def)

lemma with_growth_parts:
  fixes s :: dataframe
  defines "g \<equiv> map gkey (rows s)" and "a \<equiv> values_of ''algae_density'' s"
  shows length_rows_with_growth: "length (rows (with_growth s)) = length (rows s)"
    and values_with_growth: "\<And>c. c \<notin> set growth_labels \<Longrightarrow> values_of c (with_growth s) = values_of c s"
    and delta_with_growth: "values_of ''density_change'' (with_growth s) = group_diff g a"
    and pct_with_growth: "values_of ''density_change_pct'' (with_growth s)
        = map (\<lambda>c. cell_mul c (Num (Fin 100))) (group_pct_change g a)"
proof -
  define e where "e = set_column ''density_change'' (group_diff g a) s"
  have ld: "length (group_diff g a) = length (rows s)"
    by (simp add: length_group_diff g_def a_def)
  have le: "length (rows e) = length (rows s)" by (simp add: e_def ld)
  have ve: "values_of c e = (if c = ''density_change'' then group_diff g a else values_of c s)" for c
    unfolding e_def using ld by (simp add: values_of_set_column)
  have ge: "map gkey (rows e) = g"
    unfolding g_def
  proof (rule map_rows_cong [where cs = "[''tpu'', ''reactor'']"])
    show "length (rows e) = length (rows s)" by (rule le)
    show "values_of c e = values_of c s" if "c \<in> set [''tpu'', ''reactor'']" for c
      using that by (auto simp: ve)
    show "gkey r = gkey r'" if "\<forall>c \<in> set [''tpu'', ''reactor'']. col r c = col r' c" for r r'
      using that by (simp add: gkey_def)
  qed
  have ae: "values_of ''algae_density'' e = a" by (simp add: ve a_def)
  have w: "with_growth s = set_column ''density_change_pct''
           (map (\<lambda>c. cell_mul c (Num (Fin 100))) (group_pct_change g a)) e"
    by (simp add: with_growth_def Let_def e_def [symmetric] g_def [symmetric] a_def [symmetric] ge ae)
  have lp: "length (map (\<lambda>c. cell_mul c (Num (Fin 100))) (group_pct_change g a)) = length (rows e)"
    by (simp add: length_group_pct_change g_def a_def le)
  show "length (rows (with_growth s)) = length (rows s)"
    unfolding w using lp le by simp
  show "values_of c (with_growth s) = values_of c s" if "c \<notin> set growth_labels" for c
    unfolding w using that lp by (simp add: values_of_set_column ve growth_labels_def)
  show "values_of ''density_change'' (with_growth s) = group_diff g a"
    unfolding w using lp by (simp add: values_of_set_column ve)
  show "values_of ''density_change_pct'' (with_growth s)
        = map (\<lambda>c. cell_mul c (Num (Fin 100))) (group_pct_change g a)"
    unfolding w using lp by (simp add: values_of_set_column)
qed





subsection \<open>Order and values of the enriched table\<close>





lemma cell_arith_Null [simp]:
  "cell_sub Null c = Null" "cell_sub c Null = Null"
  "cell_div Null c = Null" "cell_div c Null = Null"
  "cell_mul Null c = Null"
  by (simp_all add: cell_sub_def cell_div_def cell_mul_def split: cell.splits)





subsection \<open>Cleaned tables are enrichable\<close>





subsection \<open>The example\<close>

lemma example_enrich_body: "add_derived_body example_cleaned = Some example_enriched"
  by code_simp

lemma example_enrich: "add_derived_columns example_cleaned = example_enriched"
  by (simp add: add_derived_columns_def example_enrich_body)


subsection \<open>The claims about the growth columns\<close>






section \<open>Properties of the pipeline\<close>

lemma set_cell_triv: "map_of (cells r) c = Some v \<Longrightarrow> set_cell c r v = r"
  by (simp add: set_cell_def update_triv)

lemma to_datetime_idem [simp]: "to_datetime pd (to_datetime pd c) = to_datetime pd c"
  by (simp add: to_datetime_def split: cell.splits option.splits)

lemma to_numeric_idem [simp]: "to_numeric pn (to_numeric pn c) = to_numeric pn c"
  by (simp add: to_numeric_def split: cell.splits option.splits)

lemma map_of_coerce_row:
  "map_of (cells (coerce_row pd pn r)) ''date'' = Some (to_datetime pd (col r ''date''))"
  "map_of (cells (coerce_row pd pn r)) ''tpu'' = Some (to_numeric pn (col r ''tpu''))"
  "map_of (cells (coerce_row pd pn r)) ''reactor'' = Some (to_numeric pn (col r ''reactor''))"
  "map_of (cells (coerce_row pd pn r)) ''algae_density'' = Some (to_numeric pn (col r ''algae_density''))"
  by (simp_all add: coerce_row_def Let_def set_cell_def update_conv' col_set_cell [unfolded set_cell_def])

lemma coerce_row_idem: "coerce_row pd pn (coerce_row pd pn r) = coerce_row pd pn r"
proof -
  let ?r = "coerce_row pd pn r"
  have d: "set_cell ''date'' ?r (to_datetime pd (col ?r ''date'')) = ?r"
    by (rule set_cell_triv) (simp add: col_coerce_row map_of_coerce_row)
  have t: "set_cell ''tpu'' ?r (to_numeric pn (col ?r ''tpu'')) = ?r"
    by (rule set_cell_triv) (simp add: col_coerce_row map_of_coerce_row)
  have s: "set_cell ''reactor'' ?r (to_numeric pn (col ?r ''reactor'')) = ?r"
    by (rule set_cell_triv) (simp add: col_coerce_row map_of_coerce_row)
  have m: "set_cell ''algae_density'' ?r (to_numeric pn (col ?r ''algae_density'')) = ?r"
    by (rule set_cell_triv) (simp add: col_coerce_row map_of_coerce_row)
  show ?thesis
    unfolding coerce_row_def [of pd pn ?r] Let_def by (simp only: d t s m)
qed

lemma clean_after_coercion:
  assumes "has_required df"
  shows "clean_flowcam_data pd pn (df\<lparr>rows := map (coerce_row pd pn) (rows df)\<rparr>)
           = clean_flowcam_data pd pn df"
proof -
  have req: "has_required (df\<lparr>rows := map (coerce_row pd pn) (rows df)\<rparr>)"
    using assms by (simp add: has_required_def)
  show ?thesis
    by (simp add: clean_rows [OF req] clean_rows [OF assms] coerce_row_idem o_def)
qed

text \<open>
  C9. The pipeline returns nothing when the file cannot be read or the validator's report
  is not valid; otherwise it returns the derived columns added to the cleaned raw table.
  (The cleaner is handed the table that validation has coerced in place; cleaning that
  table and cleaning the raw table give the same result.)
\<close>

theorem process_is_enrich_of_clean:
  "process_flowcam_file read_csv pd pn file_path =
     (case read_csv file_path of
        None \<Rightarrow> None
      | Some raw_table \<Rightarrow>
          if is_valid (fst (validate_flowcam_data pd pn raw_table))
          then Some (add_derived_columns (clean_flowcam_data pd pn raw_table))
          else None)"
proof (cases "read_csv file_path")
  case None
  then show ?thesis by (simp add: process_flowcam_file_def read_flowcam_csv_def)
next
  case (Some raw)
  show ?thesis
  proof (cases "has_required raw")
    case True
    from validate_structurally_valid [OF True, of pd pn]
    obtain res where r: "validate_flowcam_data pd pn raw = (res, raw\<lparr>rows := map (coerce_row pd pn) (rows raw)\<rparr>)"
      "is_valid res" by blast
    show ?thesis
      by (simp add: process_flowcam_file_def read_flowcam_csv_def Some r clean_after_coercion [OF True])
  next
    case False
    from validate_structurally_invalid [OF False, of pd pn]
    show ?thesis
      by (simp add: process_flowcam_file_def read_flowcam_csv_def Some)
  qed
qed

theorem process_is_enrich_of_clean_witness:
  "process_flowcam_file (\<lambda>p. Some example_raw) example_pd example_pn ''flowcam.csv''
     = Some example_enriched
   \<and> process_flowcam_file (\<lambda>p. Some example_missing) example_pd example_pn ''flowcam.csv'' = None
   \<and> process_flowcam_file (\<lambda>p. None) example_pd example_pn ''flowcam.csv'' = None"
proof -
  have v: "is_valid (fst (validate_flowcam_data example_pd example_pn example_raw))"
    using validate_structurally_valid [OF example_has_required, of example_pd example_pn] by auto
  have m: "\<not> has_required example_missing"
    by (simp add: has_required_def required_columns_def example_missing_def)
  have i: "\<not> is_valid (fst (validate_flowcam_data example_pd example_pn example_missing))"
    by (simp add: validate_structurally_invalid [OF m])
  have 1: "process_flowcam_file (\<lambda>p. Some example_raw) example_pd example_pn ''flowcam.csv''
     = Some example_enriched"
    by (simp add: process_is_enrich_of_clean v example_clean example_enrich)
  have 2: "process_flowcam_file (\<lambda>p. Some example_missing) example_pd example_pn ''flowcam.csv''
     = None"
    by (simp add: process_is_enrich_of_clean i)
  have 3: "process_flowcam_file (\<lambda>p. None) example_pd example_pn ''flowcam.csv'' = None"
    by (simp add: process_is_enrich_of_clean)
  from 1 2 3 show ?thesis by blast
qed

end
